theory Spec2Isabelle
  imports Complex_Main
begin

section \<open>Python and numpy primitives\<close>

text \<open>
  The exceptions that the modelled code can raise. A raise is the value \<open>Inl e\<close> of the
  result type \<open>error + 'a\<close>; once raised it propagates to the caller unchanged, since
  the modelled functions contain no \<^verbatim>\<open>try\<close>.
\<close>

datatype error = ValueError | IndexError | ZeroDivisionError

text \<open>
  Python's \<^verbatim>\<open>%\<close> on two ints, as in \<^verbatim>\<open>(self.pos + 1) % self.buffer_size\<close>: the sign of
  the result follows the divisor (as HOL's \<open>mod\<close> on \<open>int\<close> does) and a zero divisor raises.
\<close>

definition py_mod :: "int \<Rightarrow> int \<Rightarrow> error + int" where
  "py_mod a n = (if n = 0 then Inl ZeroDivisionError else Inr (a mod n))"

text \<open>
  numpy's elementwise \<^verbatim>\<open>%\<close> of an integer array by a scalar, as in
  \<^verbatim>\<open>(batch_inds + 1) % self.buffer_size\<close>: a zero divisor gives 0 (with a warning),
  it does not raise. Array elements are modelled as unbounded integers.
\<close>

definition np_mod :: "int \<Rightarrow> int \<Rightarrow> int" where
  "np_mod a n = (if n = 0 then 0 else a mod n)"

text \<open>
  An integer index on an axis of length \<open>n\<close>: negative indices count from the end,
  anything outside \<open>[-n, n)\<close> raises IndexError.
\<close>

definition np_index :: "nat \<Rightarrow> int \<Rightarrow> error + nat" where
  "np_index n i =
     (if 0 \<le> i \<and> i < int n then Inr (nat i)
      else if - int n \<le> i \<and> i < 0 then Inr (nat (int n + i))
      else Inl IndexError)"

definition np_getitem :: "'x list \<Rightarrow> int \<Rightarrow> error + 'x" where
  "np_getitem xs i =
     (case np_index (length xs) i of Inl e \<Rightarrow> Inl e | Inr k \<Rightarrow> Inr (xs ! k))"

definition np_setitem :: "'x list \<Rightarrow> int \<Rightarrow> 'x \<Rightarrow> error + 'x list" where
  "np_setitem xs i v =
     (case np_index (length xs) i of Inl e \<Rightarrow> Inl e | Inr k \<Rightarrow> Inr (xs[k := v]))"

text \<open>
  Indexing with an integer array, \<^verbatim>\<open>arr[batch_inds]\<close>: one lookup per index, in order; the
  result is a fresh array (advanced indexing copies). With no index nothing is looked up.
\<close>

fun np_take :: "'x list \<Rightarrow> int list \<Rightarrow> error + 'x list" where
  "np_take xs [] = Inr []"
| "np_take xs (i # inds) =
     (case np_getitem xs i of
        Inl e \<Rightarrow> Inl e
      | Inr v \<Rightarrow> (case np_take xs inds of Inl e \<Rightarrow> Inl e | Inr vs \<Rightarrow> Inr (v # vs)))"

text \<open>
  \<^verbatim>\<open>arr[batch_inds, 0, :]\<close> on an array whose first axis is the slot and whose second
  axis is the environment: for each index the row of environment 0 of that slot.
\<close>

fun np_take_env0 :: "'x list list \<Rightarrow> int list \<Rightarrow> error + 'x list" where
  "np_take_env0 xs [] = Inr []"
| "np_take_env0 xs (i # inds) =
     (case np_getitem xs i of
        Inl e \<Rightarrow> Inl e
      | Inr row \<Rightarrow>
          (case np_getitem row 0 of
             Inl e \<Rightarrow> Inl e
           | Inr v \<Rightarrow>
               (case np_take_env0 xs inds of Inl e \<Rightarrow> Inl e | Inr vs \<Rightarrow> Inr (v # vs))))"

text \<open>
  \<^verbatim>\<open>np.random.randint(low, high, size=size)\<close> belongs to numpy, so it is modelled by its
  contract: \<open>n\<close> integers (the \<^verbatim>\<open>size\<close>), each in \<open>[low, high)\<close>. The generator's entropy is the
  function \<open>rng\<close>, whose \<open>k\<close>-th value is reduced into the range; every array the contract
  allows is the outcome for some \<open>rng\<close> (lemma \<open>randint_complete\<close> below). Size 0
  returns the empty array before the bounds are looked at; otherwise \<open>low >= high\<close>
  and a negative size raise ValueError.
\<close>

definition randint :: "(nat \<Rightarrow> nat) \<Rightarrow> int \<Rightarrow> int \<Rightarrow> int \<Rightarrow> error + int list" where
  "randint rng low high n =
     (if n = 0 then Inr []
      else if high \<le> low then Inl ValueError
      else if n < 0 then Inl ValueError
      else Inr (map (\<lambda>k. low + int (rng k mod nat (high - low))) [0..<nat n]))"

section \<open>The replay buffer\<close>

text \<open>
  The state of \<^verbatim>\<open>ReplayBuffer\<close> that \<^verbatim>\<open>add_trajectory\<close> and \<^verbatim>\<open>sample\<close> use. The arrays
  are allocated by \<^verbatim>\<open>BaseBuffer.__init__\<close> with the slot as first axis: \<open>observations\<close> and
  \<open>actions\<close> have the environment as second axis (they are read with \<^verbatim>\<open>[batch_inds, 0, :]\<close>),
  so a slot holds a list of per-environment rows; a slot of \<open>rewards\<close> and \<open>dones\<close> is
  read whole and stays abstract. A value stored into a slot is taken to have the slot's
  shape already (numpy's broadcasting on assignment is not modelled).
\<close>

record ('o, 'a, 'r, 'd) ReplayBuffer =
  buffer_size :: int
  pos :: int
  full :: bool
  observations :: "'o list list"
  actions :: "'a list list"
  rewards :: "'r list"
  dones :: "'d list"

text \<open>
  \<^verbatim>\<open>add_trajectory\<close>, statement by statement. An exception aborts the call; the model
  then returns the exception alone.
\<close>

definition add_trajectory ::
  "('o, 'a, 'r, 'd) ReplayBuffer \<Rightarrow> 'o list \<Rightarrow> 'a list \<Rightarrow> 'r \<Rightarrow> 'o list \<Rightarrow> 'd
     \<Rightarrow> error + ('o, 'a, 'r, 'd) ReplayBuffer" where
  "add_trajectory b observation action reward next_observation done =
     (case np_setitem (observations b) (pos b) observation of
        Inl e \<Rightarrow> Inl e
      | Inr obs1 \<Rightarrow>
     (case py_mod (pos b + 1) (buffer_size b) of
        Inl e \<Rightarrow> Inl e
      | Inr j \<Rightarrow>
     (case np_setitem obs1 j next_observation of
        Inl e \<Rightarrow> Inl e
      | Inr obs2 \<Rightarrow>
     (case np_setitem (actions b) (pos b) action of
        Inl e \<Rightarrow> Inl e
      | Inr acts \<Rightarrow>
     (case np_setitem (rewards b) (pos b) reward of
        Inl e \<Rightarrow> Inl e
      | Inr rews \<Rightarrow>
     (case np_setitem (dones b) (pos b) done of
        Inl e \<Rightarrow> Inl e
      | Inr dns \<Rightarrow>
          (let b1 = b\<lparr>observations := obs2, actions := acts, rewards := rews,
                       dones := dns, pos := pos b + 1\<rparr>
           in if pos b1 = buffer_size b1 then Inr (b1\<lparr>full := True, pos := 0\<rparr>)
              else Inr b1)))))))"

text \<open>
  A transition as the training loop hands it to \<^verbatim>\<open>add_trajectory\<close>, and a sequence of
  calls; the sequence stops at the first exception.
\<close>

record ('o, 'a, 'r, 'd) transition =
  tr_observation :: "'o list"
  tr_action :: "'a list"
  tr_reward :: 'r
  tr_next_observation :: "'o list"
  tr_done :: 'd

fun add_trajectories ::
  "('o, 'a, 'r, 'd) ReplayBuffer \<Rightarrow> ('o, 'a, 'r, 'd) transition list
     \<Rightarrow> error + ('o, 'a, 'r, 'd) ReplayBuffer" where
  "add_trajectories b [] = Inr b"
| "add_trajectories b (t # ts) =
     (case add_trajectory b (tr_observation t) (tr_action t) (tr_reward t)
             (tr_next_observation t) (tr_done t) of
        Inl e \<Rightarrow> Inl e
      | Inr b' \<Rightarrow> add_trajectories b' ts)"

text \<open>
  Modelled from the spec: \<^verbatim>\<open>BaseBuffer.__init__\<close> is not among the sources. The spec has
  the buffer allocated once at its fixed capacity with the write position counting the
  insertions, so a fresh buffer has \<open>pos = 0\<close>, \<open>full = False\<close> and every array filled
  with an initial value, one slot per unit of capacity and one row per environment.
\<close>

definition fresh_buffer ::
  "nat \<Rightarrow> nat \<Rightarrow> 'o \<Rightarrow> 'a \<Rightarrow> 'r \<Rightarrow> 'd \<Rightarrow> ('o, 'a, 'r, 'd) ReplayBuffer" where
  "fresh_buffer capacity n_envs o0 a0 r0 d0 =
     \<lparr>buffer_size = int capacity, pos = 0, full = False,
      observations = replicate capacity (replicate n_envs o0),
      actions = replicate capacity (replicate n_envs a0),
      rewards = replicate capacity r0,
      dones = replicate capacity d0\<rparr>"

text \<open>
  The states the buffer is in between calls: a positive capacity, the write position
  inside it, and every array with one slot per unit of capacity.
\<close>

definition buffer_inv :: "('o, 'a, 'r, 'd) ReplayBuffer \<Rightarrow> bool" where
  "buffer_inv b \<longleftrightarrow>
     0 < buffer_size b \<and> 0 \<le> pos b \<and> pos b < buffer_size b \<and>
     int (length (observations b)) = buffer_size b \<and>
     int (length (actions b)) = buffer_size b \<and>
     int (length (rewards b)) = buffer_size b \<and>
     int (length (dones b)) = buffer_size b"

section \<open>Sampling\<close>

text \<open>
  Modelled from the spec: the enum \<^verbatim>\<open>TrajectoryType\<close> and the batch class
  \<^verbatim>\<open>Trajectories\<close> of \<^verbatim>\<open>anvil.common.type_aliases\<close> are not among the sources. The enum
  has the values \<^verbatim>\<open>"numpy"\<close> and \<^verbatim>\<open>"torch"\<close> (the default argument and the member that
  \<^verbatim>\<open>sample\<close> tests); constructing it from any other string raises ValueError. The batch
  has the five fields that \<^verbatim>\<open>sample\<close> passes by keyword (here with the prefix \<open>traj_\<close>,
  the buffer's fields having the plain names).
\<close>

datatype TrajectoryType = NUMPY | TORCH

datatype dtype_arg = Str string | Enum TrajectoryType

definition lower_char :: "char \<Rightarrow> char" where
  "lower_char c =
     (let n = (of_char c :: nat) in if 65 \<le> n \<and> n \<le> 90 then char_of (n + 32) else c)"

definition TrajectoryType_of :: "string \<Rightarrow> error + TrajectoryType" where
  "TrajectoryType_of s =
     (if s = ''numpy'' then Inr NUMPY else if s = ''torch'' then Inr TORCH
      else Inl ValueError)"

text \<open>
  The two containers a batch field can be: the numpy array that indexing returns, or
  the torch tensor that \<^verbatim>\<open>T.tensor(...).to(self.device)\<close> builds from it with the same
  elements.
\<close>

datatype 'x batch_array = NdArray "'x list" | TorchTensor "'x list"

fun elems :: "'x batch_array \<Rightarrow> 'x list" where
  "elems (NdArray xs) = xs"
| "elems (TorchTensor xs) = xs"

definition to_container :: "TrajectoryType \<Rightarrow> 'x list \<Rightarrow> 'x batch_array" where
  "to_container dt xs = (if dt = TORCH then TorchTensor xs else NdArray xs)"

record ('o, 'a, 'r, 'd) Trajectories =
  traj_observations :: "'o batch_array"
  traj_actions :: "'a batch_array"
  traj_rewards :: "'r batch_array"
  traj_next_observations :: "'o batch_array"
  traj_dones :: "'d batch_array"

text \<open>Lines 63-64 of \<^verbatim>\<open>sample\<close>: a string \<open>dtype\<close> is lowered and turned into the enum.\<close>

definition resolve_dtype :: "dtype_arg \<Rightarrow> error + TrajectoryType" where
  "resolve_dtype dtype =
     (case dtype of Str s \<Rightarrow> TrajectoryType_of (map lower_char s) | Enum dt \<Rightarrow> Inr dt)"

text \<open>Lines 65-70: the local variable \<^verbatim>\<open>batch_inds\<close>.\<close>

definition sample_batch_inds ::
  "(nat \<Rightarrow> nat) \<Rightarrow> ('o, 'a, 'r, 'd) ReplayBuffer \<Rightarrow> int \<Rightarrow> error + int list" where
  "sample_batch_inds rng b batch_size =
     (if full b then
        (case randint rng 1 (buffer_size b) batch_size of
           Inl e \<Rightarrow> Inl e
         | Inr draws \<Rightarrow> Inr (map (\<lambda>r. np_mod (r + pos b) (buffer_size b)) draws))
      else randint rng 0 (pos b) batch_size)"

text \<open>
  \<^verbatim>\<open>sample\<close>. It is a method of the buffer, so the model returns the buffer as the call
  leaves it next to the batch.
\<close>

definition sample ::
  "(nat \<Rightarrow> nat) \<Rightarrow> ('o, 'a, 'r, 'd) ReplayBuffer \<Rightarrow> int \<Rightarrow> dtype_arg
     \<Rightarrow> error + (('o, 'a, 'r, 'd) Trajectories \<times> ('o, 'a, 'r, 'd) ReplayBuffer)" where
  "sample rng b batch_size dtype =
     (case resolve_dtype dtype of
        Inl e \<Rightarrow> Inl e
      | Inr dt \<Rightarrow>
     (case sample_batch_inds rng b batch_size of
        Inl e \<Rightarrow> Inl e
      | Inr batch_inds \<Rightarrow>
     (case np_take_env0 (observations b) batch_inds of
        Inl e \<Rightarrow> Inl e
      | Inr obs \<Rightarrow>
     (case np_take_env0 (actions b) batch_inds of
        Inl e \<Rightarrow> Inl e
      | Inr acts \<Rightarrow>
     (case np_take (rewards b) batch_inds of
        Inl e \<Rightarrow> Inl e
      | Inr rews \<Rightarrow>
     (case np_take_env0 (observations b)
             (map (\<lambda>i. np_mod (i + 1) (buffer_size b)) batch_inds) of
        Inl e \<Rightarrow> Inl e
      | Inr next_obs \<Rightarrow>
     (case np_take (dones b) batch_inds of
        Inl e \<Rightarrow> Inl e
      | Inr dns \<Rightarrow>
          Inr (\<lparr>traj_observations = to_container dt obs,
                traj_actions = to_container dt acts,
                traj_rewards = to_container dt rews,
                traj_next_observations = to_container dt next_obs,
                traj_dones = to_container dt dns\<rparr>, b))))))))"

section \<open>The TD(0) target\<close>

text \<open>
  Modelled from the spec: the function \<^verbatim>\<open>TD_zero\<close> is not among the sources (only its
  call in \<^verbatim>\<open>DQN._fit\<close> and its test are). The spec gives
  \<^verbatim>\<open>target = reward + gamma * (1 - done) * next_Q\<close>, elementwise over the batch, with
  \<open>gamma\<close> defaulting to 1. A batch is a list with one entry per element; the numbers
  are reals, so rounding, infinities and NaN of the tensors' floats are not modelled.
  \<open>None\<close> for \<open>gamma\<close> is the call that leaves the argument out.
\<close>

definition TD_zero :: "real list \<Rightarrow> real list \<Rightarrow> real list \<Rightarrow> real option \<Rightarrow> real list" where
  "TD_zero rewards_in next_values dones_in gamma =
     (let g = (case gamma of None \<Rightarrow> 1 | Some g \<Rightarrow> g)
      in map (\<lambda>(r, v, d). r + g * (1 - d) * v) (zip rewards_in (zip next_values dones_in)))"

section \<open>The regression updater\<close>

text \<open>
  \<^verbatim>\<open>BaseDeepUpdater.run_optimizer\<close> and \<^verbatim>\<open>DeepRegression.__call__\<close> act on torch objects
  through calls. The model keeps the calls made so far, each with the parameters it
  works on: the optimizer zeroes and steps the parameters it was built with, and
  \<^verbatim>\<open>clip_grad_norm_\<close> clips the gradients of the parameters that its argument yields.
  \<open>ClipGradNorm\<close> also carries the \<^verbatim>\<open>max_grad\<close> it is called with and \<open>NewOptimizer\<close> the
  learning rate.
\<close>

datatype 'p torch_call =
  ModelParameters | NewOptimizer real "'p list" | Forward | LossClass
  | ZeroGrad "'p list" | Backward | ClipGradNorm real "'p list" | OptimizerStep "'p list"

text \<open>
  \<^verbatim>\<open>model.parameters()\<close> is typed \<^verbatim>\<open>Iterator[T.nn.Parameter]\<close> (line 27): an object that
  yields each parameter once. Iterators are objects that several variables can refer
  to, so they live in a store: \<open>iterators\<close> holds, at the address of each iterator, the
  items it has not yielded yet.
\<close>

record 'p torch =
  calls :: "'p torch_call list"
  iterators :: "'p list list"

text \<open>
  Running an iterator to its end, as \<^verbatim>\<open>list(it)\<close> or a \<^verbatim>\<open>for\<close> loop does: the items left
  are returned and the iterator at that address is exhausted from then on.
\<close>

definition drain :: "nat \<Rightarrow> 'p torch \<Rightarrow> 'p list \<times> 'p torch" where
  "drain a s =
     (if a < length (iterators s)
      then (iterators s ! a, s\<lparr>iterators := (iterators s)[a := []]\<rparr>)
      else ([], s))"

text \<open>
  \<^verbatim>\<open>model.parameters()\<close> for a model with the parameters \<open>ps\<close>: a new iterator over \<open>ps\<close>,
  returned by its address.
\<close>

definition parameters_of :: "'p list \<Rightarrow> 'p torch \<Rightarrow> nat \<times> 'p torch" where
  "parameters_of ps s =
     (length (iterators s),
      s\<lparr>iterators := iterators s @ [ps], calls := calls s @ [ModelParameters]\<rparr>)"

text \<open>
  The two torch functions that receive the iterator, by their contracts: the constructor
  of an optimizer stores the list of the parameters that its argument yields, and
  \<^verbatim>\<open>clip_grad_norm_\<close> clips the gradients of the parameters that its argument yields. Both
  run the iterator to its end.
\<close>

record 'p optimizer =
  param_groups :: "'p list"
  opt_lr :: real

definition new_optimizer :: "nat \<Rightarrow> real \<Rightarrow> 'p torch \<Rightarrow> 'p optimizer \<times> 'p torch" where
  "new_optimizer params learning_rate s =
     (let (ps, s1) = drain params s
      in (\<lparr>param_groups = ps, opt_lr = learning_rate\<rparr>,
          s1\<lparr>calls := calls s1 @ [NewOptimizer learning_rate ps]\<rparr>))"

definition clip_grad_norm :: "nat \<Rightarrow> real \<Rightarrow> 'p torch \<Rightarrow> 'p torch" where
  "clip_grad_norm model_parameters max_norm s =
     (let (ps, s1) = drain model_parameters s
      in s1\<lparr>calls := calls s1 @ [ClipGradNorm max_norm ps]\<rparr>)"

text \<open>
  The scalar loss tensor: its value (what \<^verbatim>\<open>.item()\<close> returns) and whether it is attached
  to the autograd graph; \<^verbatim>\<open>.detach()\<close> keeps the value.
\<close>

record loss_tensor =
  item :: real
  requires_grad :: bool

definition detach :: "loss_tensor \<Rightarrow> loss_tensor" where
  "detach t = t\<lparr>requires_grad := False\<rparr>"

record UpdaterLog =
  loss :: real

text \<open>
  \<^verbatim>\<open>run_optimizer(optimizer, loss, model_parameters)\<close>, lines 30-34; \<open>max_grad\<close> is
  \<^verbatim>\<open>self.max_grad\<close>, and \<^verbatim>\<open>loss.backward()\<close> is the call \<open>Backward\<close>.
\<close>

definition run_optimizer :: "real \<Rightarrow> 'p optimizer \<Rightarrow> nat \<Rightarrow> 'p torch \<Rightarrow> 'p torch" where
  "run_optimizer max_grad optimizer model_parameters s =
     (let s1 = s\<lparr>calls := calls s @ [ZeroGrad (param_groups optimizer)]\<rparr>;
          s2 = s1\<lparr>calls := calls s1 @ [Backward]\<rparr>;
          s3 = (if max_grad > 0 then clip_grad_norm model_parameters max_grad s2 else s2)
      in s3\<lparr>calls := calls s3 @ [OptimizerStep (param_groups optimizer)]\<rparr>)"

text \<open>
  \<^verbatim>\<open>DeepRegression.__call__\<close>, lines 83-88, for a model with the parameters
  \<open>model_params\<close> and the forward pass \<open>model\<close>. The variable \<open>params\<close> is the address of
  the one iterator of line 83; line 84 and line 86 both pass it on.
\<close>

definition DeepRegression_call ::
  "real \<Rightarrow> 'p list \<Rightarrow> ('obs \<Rightarrow> 'act \<Rightarrow> 'pred) \<Rightarrow> ('pred \<Rightarrow> 'tgt \<Rightarrow> loss_tensor)
     \<Rightarrow> 'obs \<Rightarrow> 'act \<Rightarrow> 'tgt \<Rightarrow> real \<Rightarrow> 'p torch \<Rightarrow> UpdaterLog \<times> 'p torch" where
  "DeepRegression_call max_grad model_params model loss_class observations_in actions_in
       targets learning_rate s =
     (let (params, s1) = parameters_of model_params s;
          (optimizer, s2) = new_optimizer params learning_rate s1;
          prediction = model observations_in actions_in;
          s3 = s2\<lparr>calls := calls s2 @ [Forward]\<rparr>;
          l = loss_class prediction targets;
          s4 = s3\<lparr>calls := calls s3 @ [LossClass]\<rparr>;
          s5 = run_optimizer max_grad optimizer params s4
      in (\<lparr>loss = item (detach l)\<rparr>, s5))"

text \<open>
  The parameters whose gradients the clip calls of a run have clipped, and the state
  before any call.
\<close>

fun clipped_parameters :: "'p torch_call list \<Rightarrow> 'p list" where
  "clipped_parameters [] = []"
| "clipped_parameters (ClipGradNorm g ps # cs) = ps @ clipped_parameters cs"
| "clipped_parameters (c # cs) = clipped_parameters cs"

definition torch_init :: "'p torch" where
  "torch_init = \<lparr>calls = [], iterators = []\<rparr>"

section \<open>DQN: fitting and target synchronisation\<close>

text \<open>
  Modelled from the spec: the class \<^verbatim>\<open>ActorCriticWithCriticTarget\<close> with its method
  \<^verbatim>\<open>assign_targets\<close>, and the critic updater \<^verbatim>\<open>QRegression\<close>, are not among the sources.
  The spec has the target critic as a parameter-for-parameter copy of the online critic,
  changed only by the synchronisation, a hard copy; and the updater as one gradient
  step on the online critic that reports the scalar loss. So the model holds the two
  parameter lists, \<open>assign_targets\<close> copies the online list over the target list, and an
  updater is a function from the online parameters, the batch and the targets to the new
  online parameters and the loss.
\<close>

record 'p critics =
  critic :: "'p list"
  target_critic :: "'p list"

definition assign_targets :: "'p critics \<Rightarrow> 'p critics" where
  "assign_targets m = m\<lparr>target_critic := critic m\<rparr>"

record Log =
  critic_loss :: real

text \<open>
  The loop of \<^verbatim>\<open>DQN._fit\<close>, epoch \<open>i\<close> of \<open>n\<close> remaining ones: sample a batch, compute
  the targets from the target critic (\<open>target_q\<close>: the no-gradient pass and \<^verbatim>\<open>TD_zero\<close>),
  run the updater, keep the loss. \<open>rng i\<close> is the entropy that the sampler draws from in
  epoch \<open>i\<close>.
\<close>

fun fit_epochs ::
  "(nat \<Rightarrow> nat \<Rightarrow> nat) \<Rightarrow> ('o, 'a, 'r, 'd) ReplayBuffer \<Rightarrow> int
     \<Rightarrow> ('p list \<Rightarrow> ('o, 'a, 'r, 'd) Trajectories \<Rightarrow> 'q)
     \<Rightarrow> ('p list \<Rightarrow> ('o, 'a, 'r, 'd) Trajectories \<Rightarrow> 'q \<Rightarrow> 'p list \<times> UpdaterLog)
     \<Rightarrow> nat \<Rightarrow> nat \<Rightarrow> 'p critics \<Rightarrow> error + ('p critics \<times> real list)" where
  "fit_epochs rng buffer batch_size target_q updater i 0 m = Inr (m, [])"
| "fit_epochs rng buffer batch_size target_q updater i (Suc n) m =
     (case sample (rng i) buffer batch_size (Str ''numpy'') of
        Inl e \<Rightarrow> Inl e
      | Inr (trajectories, _) \<Rightarrow>
          (let target_q_values = target_q (target_critic m) trajectories;
               (online, updater_log) = updater (critic m) trajectories target_q_values
           in case fit_epochs rng buffer batch_size target_q updater (Suc i) n
                     (m\<lparr>critic := online\<rparr>) of
                Inl e \<Rightarrow> Inl e
              | Inr (m', losses) \<Rightarrow> Inr (m', loss updater_log # losses)))"

text \<open>
  \<^verbatim>\<open>DQN._fit\<close>: the loop, then \<^verbatim>\<open>self.model.assign_targets()\<close>, then the mean of the
  losses. A negative \<open>critic_epochs\<close> fails in \<^verbatim>\<open>np.zeros\<close>; the mean of no loss at all
  (numpy: NaN) is left at HOL's \<open>0 / 0\<close>.
\<close>

definition DQN_fit ::
  "(nat \<Rightarrow> nat \<Rightarrow> nat) \<Rightarrow> ('o, 'a, 'r, 'd) ReplayBuffer
     \<Rightarrow> ('p list \<Rightarrow> ('o, 'a, 'r, 'd) Trajectories \<Rightarrow> 'q)
     \<Rightarrow> ('p list \<Rightarrow> ('o, 'a, 'r, 'd) Trajectories \<Rightarrow> 'q \<Rightarrow> 'p list \<times> UpdaterLog)
     \<Rightarrow> 'p critics \<Rightarrow> int \<Rightarrow> int \<Rightarrow> error + ('p critics \<times> Log)" where
  "DQN_fit rng buffer target_q updater m batch_size critic_epochs =
     (if critic_epochs < 0 then Inl ValueError
      else
        (case fit_epochs rng buffer batch_size target_q updater 0 (nat critic_epochs) m of
           Inl e \<Rightarrow> Inl e
         | Inr (m', critic_losses) \<Rightarrow>
             Inr (assign_targets m',
                  \<lparr>critic_loss = sum_list critic_losses / real (length critic_losses)\<rparr>)))"

section \<open>Example states\<close>

text \<open>
  The scenario of the spec: capacity 3, one environment, three transitions with the
  rewards 10, 20 and 30.
\<close>

definition demo_transition :: "int \<Rightarrow> (int, int, int, bool) transition" where
  "demo_transition k =
     \<lparr>tr_observation = [k], tr_action = [k], tr_reward = 10 * k,
      tr_next_observation = [k + 1], tr_done = False\<rparr>"

definition demo_fresh :: "(int, int, int, bool) ReplayBuffer" where
  "demo_fresh = fresh_buffer 3 1 0 0 0 False"

definition demo_partial :: "(int, int, int, bool) ReplayBuffer" where
  "demo_partial =
     \<lparr>buffer_size = 3, pos = 2, full = False,
      observations = [[1], [2], [3]], actions = [[1], [2], [0]],
      rewards = [10, 20, 0], dones = [False, False, False]\<rparr>"

definition demo_full :: "(int, int, int, bool) ReplayBuffer" where
  "demo_full =
     \<lparr>buffer_size = 3, pos = 0, full = True,
      observations = [[4], [2], [3]], actions = [[1], [2], [3]],
      rewards = [10, 20, 30], dones = [False, False, False]\<rparr>"

text \<open>
  The batch that \<^verbatim>\<open>sample\<close> returns on \<open>demo_full\<close> for the batch size 4 when the
  draws are 1, 2, 1, 2.
\<close>

definition demo_batch :: "(int, int, int, bool) Trajectories" where
  "demo_batch =
     \<lparr>traj_observations = NdArray [2, 3, 2, 3], traj_actions = NdArray [2, 3, 2, 3],
      traj_rewards = NdArray [20, 30, 20, 30],
      traj_next_observations = NdArray [3, 4, 3, 4],
      traj_dones = NdArray [False, False, False, False]\<rparr>"

text \<open>
  Two critics with two parameters each, and an updater that moves every online
  parameter by 1 and reports the loss 1.
\<close>

definition demo_critics :: "int critics" where
  "demo_critics = \<lparr>critic = [1, 2], target_critic = [0, 0]\<rparr>"

definition demo_updater ::
  "int list \<Rightarrow> (int, int, int, bool) Trajectories \<Rightarrow> unit \<Rightarrow> int list \<times> UpdaterLog" where
  "demo_updater ps trajectories tq = (map (\<lambda>p. p + 1) ps, \<lparr>loss = 1\<rparr>)"

section \<open>Properties of the random draw\<close>

text \<open>
  Every draw lies in \<open>[low, high)\<close>, there are as many draws as asked for, and every
  array with these two properties is drawn for some entropy.
\<close>

lemma randint_range:
  assumes "randint rng low high n = Inr rs" and "r \<in> set rs"
  shows "low \<le> r \<and> r < high"
proof -
  from assms have n: "n \<noteq> 0" and lh: "low < high"
    and rs: "rs = map (\<lambda>k. low + int (rng k mod nat (high - low))) [0..<nat n]"
    by (auto simp: randint_def split: if_splits)
  from rs assms(2) obtain k where r: "r = low + int (rng k mod nat (high - low))"
    by auto
  have "rng k mod nat (high - low) < nat (high - low)"
    using lh by simp
  then have "int (rng k mod nat (high - low)) < high - low"
    using lh by linarith
  with r show ?thesis by simp
qed

lemma randint_length:
  "randint rng low high n = Inr rs \<Longrightarrow> int (length rs) = n"
  by (auto simp: randint_def split: if_splits)

lemma randint_complete:
  assumes "0 \<le> n" and "int (length rs) = n" and "\<forall>r\<in>set rs. low \<le> r \<and> r < high"
  shows "\<exists>rng. randint rng low high n = Inr rs"
proof (cases "n = 0")
  case True
  with assms show ?thesis by (simp add: randint_def)
next
  case False
  with assms have "rs \<noteq> []" by auto
  then have lh: "low < high" using assms(3) by (cases rs) auto
  define rng where "rng = (\<lambda>k. nat (rs ! k - low))"
  have "map (\<lambda>k. low + int (rng k mod nat (high - low))) [0..<nat n] = rs"
  proof (rule nth_equalityI)
    show "length (map (\<lambda>k. low + int (rng k mod nat (high - low))) [0..<nat n]) = length rs"
      using assms by simp
  next
    fix i assume "i < length (map (\<lambda>k. low + int (rng k mod nat (high - low))) [0..<nat n])"
    then have i: "i < length rs" using assms by simp
    then have "low \<le> rs ! i \<and> rs ! i < high" using assms(3) by simp
    then have "rng i mod nat (high - low) = nat (rs ! i - low)"
      by (simp add: rng_def)
    with i assms \<open>low \<le> rs ! i \<and> rs ! i < high\<close>
    show "map (\<lambda>k. low + int (rng k mod nat (high - low))) [0..<nat n] ! i = rs ! i"
      by simp
  qed
  with False lh assms(1) have "randint rng low high n = Inr rs"
    by (simp add: randint_def)
  then show ?thesis by blast
qed

lemma np_mod_shift_ne:
  assumes "1 \<le> r" and "r < C"
  shows "np_mod (r + p) C \<noteq> p"
proof
  assume eq: "np_mod (r + p) C = p"
  from assms have C: "0 < C" by simp
  with eq have m: "(r + p) mod C = p" by (simp add: np_mod_def)
  have "0 \<le> (r + p) mod C" and "(r + p) mod C < C"
    using C by simp_all
  with m have "p mod C = p" by simp
  with m have "(r + p) mod C = p mod C" by simp
  then have "C dvd (r + p) - p" by (simp only: mod_eq_dvd_iff)
  then have "C dvd r" by simp
  with assms show False by (simp add: zdvd_not_zless)
qed

section \<open>Which slots are sampled\<close>

text \<open>
  Claim C1. When the buffer is full, no index that \<^verbatim>\<open>sample\<close> computes, a draw from
  \<open>[1, buffer_size)\<close> shifted by \<open>pos\<close> modulo \<open>buffer_size\<close>, is the write position
  \<open>pos\<close>; this holds for every batch size.
\<close>

theorem sample_full_excludes_pos:
  assumes "full b" and "sample_batch_inds rng b batch_size = Inr batch_inds"
  shows "pos b \<notin> set batch_inds"
proof
  assume mem: "pos b \<in> set batch_inds"
  from assms obtain draws where d: "randint rng 1 (buffer_size b) batch_size = Inr draws"
    and inds: "batch_inds = map (\<lambda>r. np_mod (r + pos b) (buffer_size b)) draws"
    by (auto simp: sample_batch_inds_def split: sum.splits)
  from mem inds obtain r where r: "r \<in> set draws"
    and eq: "np_mod (r + pos b) (buffer_size b) = pos b" by auto
  from randint_range [OF d r] have "1 \<le> r" and "r < buffer_size b" by simp_all
  then have "np_mod (r + pos b) (buffer_size b) \<noteq> pos b" by (rule np_mod_shift_ne)
  with eq show False by simp
qed

theorem sample_full_excludes_pos_witness:
  "full demo_full \<and> sample_batch_inds (\<lambda>k. k) demo_full 4 = Inr [1, 2, 1, 2]
   \<and> pos demo_full \<notin> set [1, 2, 1, 2 :: int]"
proof -
  have h1: "full demo_full" by (simp add: demo_full_def)
  have h2: "sample_batch_inds (\<lambda>k. k) demo_full 4 = Inr [1, 2, 1, 2]"
    by code_simp
  show ?thesis using h1 h2 sample_full_excludes_pos [OF h1 h2] by simp
qed

text \<open>
  Claim C6. When the buffer is not full and \<open>pos\<close> is at least 1, every index that
  \<^verbatim>\<open>sample\<close> computes lies in \<open>[0, pos)\<close>, the slots written so far.
\<close>

theorem sample_not_full_below_pos:
  assumes "\<not> full b" and "1 \<le> pos b"
    and "sample_batch_inds rng b batch_size = Inr batch_inds"
  shows "\<forall>i\<in>set batch_inds. 0 \<le> i \<and> i < pos b"
proof
  fix i assume "i \<in> set batch_inds"
  moreover from assms have "randint rng 0 (pos b) batch_size = Inr batch_inds"
    by (simp add: sample_batch_inds_def)
  ultimately show "0 \<le> i \<and> i < pos b" by (rule randint_range [rotated])
qed

theorem sample_not_full_below_pos_witness:
  "\<not> full demo_partial \<and> 1 \<le> pos demo_partial
   \<and> sample_batch_inds (\<lambda>k. k) demo_partial 4 = Inr [0, 1, 0, 1]
   \<and> list_all (\<lambda>i. 0 \<le> i \<and> i < pos demo_partial) [0, 1, 0, 1]"
proof -
  have h1: "\<not> full demo_partial" by (simp add: demo_partial_def)
  have h2: "1 \<le> pos demo_partial" by (simp add: demo_partial_def)
  have h3: "sample_batch_inds (\<lambda>k. k) demo_partial 4 = Inr [0, 1, 0, 1]"
    by code_simp
  show ?thesis using h1 h2 h3 sample_not_full_below_pos [OF h1 h2 h3]
    by (simp add: list_all_iff)
qed

section \<open>Insertion\<close>

text \<open>
  On a well-formed state every index of \<^verbatim>\<open>add_trajectory\<close> is in range, so the call
  returns, and its result is the state below; the result is well-formed again.
\<close>

lemma np_setitem_in_range:
  "0 \<le> i \<Longrightarrow> i < int (length xs) \<Longrightarrow> np_setitem xs i v = Inr (xs[nat i := v])"
  by (simp add: np_setitem_def np_index_def)

lemma add_trajectory_result:
  assumes "buffer_inv b"
  shows "add_trajectory b obs act rew nobs dn =
     Inr (b\<lparr>observations := (observations b)[nat (pos b) := obs,
                 nat ((pos b + 1) mod buffer_size b) := nobs],
            actions := (actions b)[nat (pos b) := act],
            rewards := (rewards b)[nat (pos b) := rew],
            dones := (dones b)[nat (pos b) := dn],
            pos := (if pos b + 1 = buffer_size b then 0 else pos b + 1),
            full := (full b \<or> pos b + 1 = buffer_size b)\<rparr>)"
proof -
  from assms have C: "0 < buffer_size b" and p0: "0 \<le> pos b" and p1: "pos b < buffer_size b"
    and lo: "int (length (observations b)) = buffer_size b"
    and la: "int (length (actions b)) = buffer_size b"
    and lr: "int (length (rewards b)) = buffer_size b"
    and ld: "int (length (dones b)) = buffer_size b"
    by (simp_all add: buffer_inv_def)
  have s1: "np_setitem (observations b) (pos b) obs = Inr ((observations b)[nat (pos b) := obs])"
    using p0 p1 lo by (simp add: np_setitem_in_range)
  have m: "py_mod (pos b + 1) (buffer_size b) = Inr ((pos b + 1) mod buffer_size b)"
    using C by (simp add: py_mod_def)
  have j0: "0 \<le> (pos b + 1) mod buffer_size b" and j1: "(pos b + 1) mod buffer_size b < buffer_size b"
    using C by simp_all
  have s2: "np_setitem ((observations b)[nat (pos b) := obs]) ((pos b + 1) mod buffer_size b) nobs
      = Inr ((observations b)[nat (pos b) := obs, nat ((pos b + 1) mod buffer_size b) := nobs])"
    using j0 j1 lo by (simp add: np_setitem_in_range)
  have s3: "np_setitem (actions b) (pos b) act = Inr ((actions b)[nat (pos b) := act])"
    using p0 p1 la by (simp add: np_setitem_in_range)
  have s4: "np_setitem (rewards b) (pos b) rew = Inr ((rewards b)[nat (pos b) := rew])"
    using p0 p1 lr by (simp add: np_setitem_in_range)
  have s5: "np_setitem (dones b) (pos b) dn = Inr ((dones b)[nat (pos b) := dn])"
    using p0 p1 ld by (simp add: np_setitem_in_range)
  show ?thesis
    by (simp add: add_trajectory_def s1 m s2 s3 s4 s5 Let_def)
qed

lemma add_trajectory_inv:
  assumes "buffer_inv b" and "add_trajectory b obs act rew nobs dn = Inr b'"
  shows "buffer_inv b'"
  using assms(2) assms(1) unfolding add_trajectory_result [OF assms(1)]
  by (auto simp: buffer_inv_def split: if_splits)

lemma add_trajectories_below:
  assumes "buffer_inv b" and "pos b + int (length ts) < buffer_size b"
  shows "\<exists>b'. add_trajectories b ts = Inr b' \<and> buffer_inv b' \<and>
           pos b' = pos b + int (length ts) \<and> full b' = full b \<and>
           buffer_size b' = buffer_size b"
  using assms
proof (induction ts arbitrary: b)
  case Nil
  then show ?case by simp
next
  case (Cons t ts)
  let ?r = "add_trajectory b (tr_observation t) (tr_action t) (tr_reward t)
              (tr_next_observation t) (tr_done t)"
  from add_trajectory_result [OF Cons.prems(1)] obtain b1 where
    b1: "?r = Inr b1" and p: "pos b1 = (if pos b + 1 = buffer_size b then 0 else pos b + 1)"
    and f: "full b1 = (full b \<or> pos b + 1 = buffer_size b)"
    and c: "buffer_size b1 = buffer_size b"
    by simp
  have inv1: "buffer_inv b1" using Cons.prems(1) b1 by (rule add_trajectory_inv)
  from Cons.prems(2) have ne: "pos b + 1 \<noteq> buffer_size b" by simp
  with p f have p': "pos b1 = pos b + 1" and f': "full b1 = full b" by simp_all
  from Cons.prems(2) p' c have "pos b1 + int (length ts) < buffer_size b1" by simp
  from Cons.IH [OF inv1 this] obtain b' where
    "add_trajectories b1 ts = Inr b'" "buffer_inv b'" "pos b' = pos b1 + int (length ts)"
    "full b' = full b1" "buffer_size b' = buffer_size b1" by blast
  with b1 p' f' c show ?case by simp
qed

lemma add_trajectories_to_capacity:
  assumes "buffer_inv b" and "pos b + int (length ts) = buffer_size b"
  shows "\<exists>b'. add_trajectories b ts = Inr b' \<and> buffer_inv b' \<and> pos b' = 0 \<and> full b' \<and>
           buffer_size b' = buffer_size b"
  using assms
proof (induction ts arbitrary: b)
  case Nil
  then show ?case by (simp add: buffer_inv_def)
next
  case (Cons t ts)
  let ?r = "add_trajectory b (tr_observation t) (tr_action t) (tr_reward t)
              (tr_next_observation t) (tr_done t)"
  from add_trajectory_result [OF Cons.prems(1)] obtain b1 where
    b1: "?r = Inr b1" and p: "pos b1 = (if pos b + 1 = buffer_size b then 0 else pos b + 1)"
    and f: "full b1 = (full b \<or> pos b + 1 = buffer_size b)"
    and c: "buffer_size b1 = buffer_size b"
    by simp
  have inv1: "buffer_inv b1" using Cons.prems(1) b1 by (rule add_trajectory_inv)
  show ?case
  proof (cases "pos b + 1 = buffer_size b")
    case True
    with Cons.prems(2) have "length ts = 0" by (simp del: length_0_conv)
    then have "ts = []" by simp
    with b1 p f c True inv1 show ?thesis by simp
  next
    case False
    with p have p': "pos b1 = pos b + 1" by simp
    with Cons.prems(2) c have "pos b1 + int (length ts) = buffer_size b1" by simp
    from Cons.IH [OF inv1 this] obtain b' where
      "add_trajectories b1 ts = Inr b'" "buffer_inv b'" "pos b' = 0" "full b'"
      "buffer_size b' = buffer_size b1" by blast
    with b1 c show ?thesis by simp
  qed
qed

lemma fresh_buffer_inv: "0 < capacity \<Longrightarrow> buffer_inv (fresh_buffer capacity n_envs o0 a0 r0 d0)"
  by (simp add: buffer_inv_def fresh_buffer_def)

text \<open>
  Claim C2. On every well-formed buffer state \<^verbatim>\<open>add_trajectory\<close> returns; it has written
  observation, action, reward and done at index \<open>pos\<close> and then the next observation at
  \<open>(pos + 1) mod buffer_size\<close> (with capacity 1 both writes hit slot 0 and the second
  one stays); \<open>pos\<close> is incremented, and when it reaches \<open>buffer_size\<close> the buffer is
  marked full and \<open>pos\<close> is back at 0. So \<open>buffer_size\<close> insertions that start at
  \<open>pos = 0\<close> end with \<open>full\<close> true and \<open>pos = 0\<close>.
\<close>

theorem add_trajectory_writes_and_wraps:
  assumes "buffer_inv b"
  shows "(\<exists>b'. add_trajectory b obs act rew nobs dn = Inr b' \<and>
            observations b' = (observations b)[nat (pos b) := obs,
                                 nat ((pos b + 1) mod buffer_size b) := nobs] \<and>
            actions b' = (actions b)[nat (pos b) := act] \<and>
            rewards b' = (rewards b)[nat (pos b) := rew] \<and>
            dones b' = (dones b)[nat (pos b) := dn] \<and>
            observations b' ! nat ((pos b + 1) mod buffer_size b) = nobs \<and>
            (1 < buffer_size b \<longrightarrow> observations b' ! nat (pos b) = obs) \<and>
            actions b' ! nat (pos b) = act \<and>
            rewards b' ! nat (pos b) = rew \<and>
            dones b' ! nat (pos b) = dn \<and>
            buffer_size b' = buffer_size b \<and>
            pos b' = (if pos b + 1 = buffer_size b then 0 else pos b + 1) \<and>
            full b' = (full b \<or> pos b + 1 = buffer_size b))
         \<and> (\<forall>ts. pos b = 0 \<longrightarrow> int (length ts) = buffer_size b \<longrightarrow>
               (\<exists>b'. add_trajectories b ts = Inr b' \<and> full b' \<and> pos b' = 0))"
proof (intro conjI allI impI)
  from assms have C: "0 < buffer_size b" and p0: "0 \<le> pos b" and p1: "pos b < buffer_size b"
    and lo: "int (length (observations b)) = buffer_size b"
    and la: "int (length (actions b)) = buffer_size b"
    and lr: "int (length (rewards b)) = buffer_size b"
    and ld: "int (length (dones b)) = buffer_size b"
    by (simp_all add: buffer_inv_def)
  have j0: "0 \<le> (pos b + 1) mod buffer_size b"
    and j1: "(pos b + 1) mod buffer_size b < buffer_size b"
    using C by simp_all
  have jlt: "nat ((pos b + 1) mod buffer_size b) < length (observations b)"
    using j0 j1 lo by linarith
  have plt: "nat (pos b) < length (observations b)" "nat (pos b) < length (actions b)"
    "nat (pos b) < length (rewards b)" "nat (pos b) < length (dones b)"
    using p0 p1 lo la lr ld by linarith+
  have ne: "1 < buffer_size b \<Longrightarrow> nat ((pos b + 1) mod buffer_size b) \<noteq> nat (pos b)"
  proof
    assume big: "1 < buffer_size b"
      and eq: "nat ((pos b + 1) mod buffer_size b) = nat (pos b)"
    with j0 p0 have "(pos b + 1) mod buffer_size b = pos b" by linarith
    then have "np_mod (1 + pos b) (buffer_size b) = pos b"
      using C by (simp add: np_mod_def add.commute)
    moreover have "np_mod (1 + pos b) (buffer_size b) \<noteq> pos b"
      using big by (intro np_mod_shift_ne) simp_all
    ultimately show False by simp
  qed
  show "\<exists>b'. add_trajectory b obs act rew nobs dn = Inr b' \<and>
            observations b' = (observations b)[nat (pos b) := obs,
                                 nat ((pos b + 1) mod buffer_size b) := nobs] \<and>
            actions b' = (actions b)[nat (pos b) := act] \<and>
            rewards b' = (rewards b)[nat (pos b) := rew] \<and>
            dones b' = (dones b)[nat (pos b) := dn] \<and>
            observations b' ! nat ((pos b + 1) mod buffer_size b) = nobs \<and>
            (1 < buffer_size b \<longrightarrow> observations b' ! nat (pos b) = obs) \<and>
            actions b' ! nat (pos b) = act \<and>
            rewards b' ! nat (pos b) = rew \<and>
            dones b' ! nat (pos b) = dn \<and>
            buffer_size b' = buffer_size b \<and>
            pos b' = (if pos b + 1 = buffer_size b then 0 else pos b + 1) \<and>
            full b' = (full b \<or> pos b + 1 = buffer_size b)"
    unfolding add_trajectory_result [OF assms]
    using jlt plt ne by (simp add: nth_list_update)
next
  fix ts :: "('a, 'b, 'c, 'd) transition list"
  assume "pos b = 0" and "int (length ts) = buffer_size b"
  then have "pos b + int (length ts) = buffer_size b" by simp
  from add_trajectories_to_capacity [OF assms this]
  show "\<exists>b'. add_trajectories b ts = Inr b' \<and> full b' \<and> pos b' = 0" by blast
qed

theorem add_trajectory_writes_and_wraps_witness:
  "buffer_inv demo_partial
   \<and> add_trajectory demo_partial [3] [3] 30 [4] False = Inr demo_full
   \<and> buffer_inv demo_fresh \<and> pos demo_fresh = 0
   \<and> int (length [demo_transition 1, demo_transition 2, demo_transition 3])
       = buffer_size demo_fresh
   \<and> add_trajectories demo_fresh [demo_transition 1, demo_transition 2, demo_transition 3]
       = Inr demo_full
   \<and> full demo_full \<and> pos demo_full = 0"
proof -
  have h1: "buffer_inv demo_partial" by (simp add: buffer_inv_def demo_partial_def)
  have h2: "add_trajectory demo_partial [3] [3] 30 [4] False = Inr demo_full"
    by code_simp
  have h3: "buffer_inv demo_fresh"
    by (simp add: buffer_inv_def demo_fresh_def fresh_buffer_def)
  have h4: "pos demo_fresh = 0" by (simp add: demo_fresh_def fresh_buffer_def)
  have h5: "int (length [demo_transition 1, demo_transition 2, demo_transition 3])
       = buffer_size demo_fresh" by (simp add: demo_fresh_def fresh_buffer_def)
  have h6: "add_trajectories demo_fresh
       [demo_transition 1, demo_transition 2, demo_transition 3] = Inr demo_full"
    by code_simp
  have h7: "full demo_full \<and> pos demo_full = 0" by (simp add: demo_full_def)
  note t = add_trajectory_writes_and_wraps [OF h3, of "[1]" "[1]" 10 "[2]" False]
  from t h1 h2 h3 h4 h5 h6 h7 show ?thesis by blast
qed

text \<open>
  Claim C3, as the spec states it, has the flag still false after \<open>n \<le> buffer_size\<close>
  insertions into a fresh buffer. With capacity 3 and three insertions the buffer is
  full and \<open>pos\<close> is 0, not 3.
\<close>

theorem add_trajectories_at_capacity_counterexample:
  "int (length [demo_transition 1, demo_transition 2, demo_transition 3])
       \<le> buffer_size (fresh_buffer 3 1 0 0 0 False :: (int, int, int, bool) ReplayBuffer)
   \<and> add_trajectories (fresh_buffer 3 1 0 0 0 False)
        [demo_transition 1, demo_transition 2, demo_transition 3] = Inr demo_full
   \<and> full demo_full
   \<and> pos demo_full \<noteq> int (length [demo_transition 1, demo_transition 2, demo_transition 3])"
proof -
  have "add_trajectories (fresh_buffer 3 1 0 0 0 False)
        [demo_transition 1, demo_transition 2, demo_transition 3] = Inr demo_full"
    by code_simp
  then show ?thesis by (simp add: demo_full_def fresh_buffer_def)
qed

text \<open>
  Claim C3, amended: after \<open>n\<close> insertions into a fresh buffer, with \<open>n\<close> strictly below
  the capacity, every call has returned, \<open>full\<close> is still false and \<open>pos\<close> is \<open>n\<close>.
\<close>

theorem add_trajectories_below_capacity:
  assumes "length ts < capacity"
  shows "\<exists>b'. add_trajectories (fresh_buffer capacity n_envs o0 a0 r0 d0) ts = Inr b' \<and>
           \<not> full b' \<and> pos b' = int (length ts)"
proof -
  let ?b = "fresh_buffer capacity n_envs o0 a0 r0 d0"
  from assms have "0 < capacity" by simp
  then have inv: "buffer_inv ?b" by (rule fresh_buffer_inv)
  have p: "pos ?b = 0" and f: "\<not> full ?b" and c: "buffer_size ?b = int capacity"
    by (simp_all add: fresh_buffer_def)
  from assms p c have "pos ?b + int (length ts) < buffer_size ?b" by simp
  from add_trajectories_below [OF inv this] p f show ?thesis by auto
qed

theorem add_trajectories_below_capacity_witness:
  "length [demo_transition 1, demo_transition 2] < (3::nat)
   \<and> add_trajectories (fresh_buffer 3 1 0 0 0 False) [demo_transition 1, demo_transition 2]
       = Inr demo_partial
   \<and> \<not> full demo_partial \<and> pos demo_partial = int (length [demo_transition 1, demo_transition 2])"
proof -
  have h1: "length [demo_transition 1, demo_transition 2] < (3::nat)" by simp
  have h2: "add_trajectories (fresh_buffer 3 1 0 0 0 False)
       [demo_transition 1, demo_transition 2] = Inr demo_partial"
    by code_simp
  from add_trajectories_below_capacity [OF h1, of 1 0 0 0 False] h1 h2
  show ?thesis by (simp add: demo_partial_def)
qed

section \<open>The sampled batch\<close>

text \<open>
  What a successful call of \<^verbatim>\<open>sample\<close> has computed, and what indexing with the index
  array returns, entry by entry.
\<close>

lemma elems_to_container [simp]: "elems (to_container dt xs) = xs"
  by (simp add: to_container_def)

lemma np_getitem_nonneg:
  assumes "0 \<le> i" and "np_getitem xs i = Inr v"
  shows "nat i < length xs \<and> v = xs ! nat i"
  using assms by (auto simp: np_getitem_def np_index_def split: if_splits)

lemma np_take_env0_nth:
  assumes "np_take_env0 xs inds = Inr vs"
  shows "length vs = length inds \<and>
         (\<forall>k<length inds. \<exists>row. np_getitem xs (inds ! k) = Inr row \<and>
                                  np_getitem row 0 = Inr (vs ! k))"
  using assms
proof (induction inds arbitrary: vs)
  case Nil
  then show ?case by simp
next
  case (Cons i inds)
  from Cons.prems obtain row v vs' where
    row: "np_getitem xs i = Inr row" and v: "np_getitem row 0 = Inr v"
    and rest: "np_take_env0 xs inds = Inr vs'" and vs: "vs = v # vs'"
    by (auto split: sum.splits)
  from Cons.IH [OF rest] have len: "length vs' = length inds"
    and nth: "\<forall>k<length inds. \<exists>row. np_getitem xs (inds ! k) = Inr row \<and>
                                  np_getitem row 0 = Inr (vs' ! k)"
    by simp_all
  show ?case
  proof (intro conjI allI impI)
    show "length vs = length (i # inds)" using len vs by simp
  next
    fix k assume k: "k < length (i # inds)"
    show "\<exists>row. np_getitem xs ((i # inds) ! k) = Inr row \<and> np_getitem row 0 = Inr (vs ! k)"
    proof (cases k)
      case 0
      with row v vs show ?thesis by simp
    next
      case (Suc j)
      with k have "j < length inds" by simp
      with nth Suc vs show ?thesis by simp
    qed
  qed
qed

lemma sample_InrD:
  assumes "sample rng b batch_size dtype = Inr (batch, b')"
  shows "\<exists>dt inds obs acts rews next_obs dns.
           resolve_dtype dtype = Inr dt \<and>
           sample_batch_inds rng b batch_size = Inr inds \<and>
           np_take_env0 (observations b) inds = Inr obs \<and>
           np_take_env0 (actions b) inds = Inr acts \<and>
           np_take (rewards b) inds = Inr rews \<and>
           np_take_env0 (observations b) (map (\<lambda>i. np_mod (i + 1) (buffer_size b)) inds)
             = Inr next_obs \<and>
           np_take (dones b) inds = Inr dns \<and>
           batch = \<lparr>traj_observations = to_container dt obs,
                    traj_actions = to_container dt acts,
                    traj_rewards = to_container dt rews,
                    traj_next_observations = to_container dt next_obs,
                    traj_dones = to_container dt dns\<rparr> \<and>
           b' = b"
  using assms by (auto simp: sample_def split: sum.splits)

text \<open>
  Claim C5. In every batch that \<^verbatim>\<open>sample\<close> returns, the next observation of the
  \<open>k\<close>-th sampled index \<open>i\<close> is the stored observation (of environment 0) of the slot
  \<open>(i + 1) mod buffer_size\<close>: the lookup of that slot succeeds and gives this entry. With a
  positive capacity the slot index is \<open>nat ((i + 1) mod buffer_size)\<close>, inside the array.
\<close>

theorem sample_next_observations_alias:
  assumes "sample rng b batch_size dtype = Inr (batch, b')"
  shows "\<exists>inds. sample_batch_inds rng b batch_size = Inr inds \<and>
           length (elems (traj_next_observations batch)) = length inds \<and>
           (\<forall>k<length inds. \<exists>row.
              np_getitem (observations b) (np_mod (inds ! k + 1) (buffer_size b)) = Inr row \<and>
              np_getitem row 0 = Inr (elems (traj_next_observations batch) ! k)) \<and>
           (0 < buffer_size b \<longrightarrow>
              (\<forall>k<length inds.
                 nat ((inds ! k + 1) mod buffer_size b) < length (observations b) \<and>
                 observations b ! nat ((inds ! k + 1) mod buffer_size b) \<noteq> [] \<and>
                 elems (traj_next_observations batch) ! k =
                   observations b ! nat ((inds ! k + 1) mod buffer_size b) ! 0))"
proof -
  from sample_InrD [OF assms] obtain dt inds next_obs where
    inds: "sample_batch_inds rng b batch_size = Inr inds"
    and nx: "np_take_env0 (observations b) (map (\<lambda>i. np_mod (i + 1) (buffer_size b)) inds)
             = Inr next_obs"
    and el: "elems (traj_next_observations batch) = next_obs"
    by auto
  let ?js = "map (\<lambda>i. np_mod (i + 1) (buffer_size b)) inds"
  from np_take_env0_nth [OF nx] have len: "length next_obs = length inds"
    and nth: "\<forall>k<length inds. \<exists>row. np_getitem (observations b) (?js ! k) = Inr row \<and>
                                  np_getitem row 0 = Inr (next_obs ! k)"
    by simp_all
  have a: "\<forall>k<length inds. \<exists>row.
              np_getitem (observations b) (np_mod (inds ! k + 1) (buffer_size b)) = Inr row \<and>
              np_getitem row 0 = Inr (next_obs ! k)"
    using nth by simp
  have c: "\<forall>k<length inds.
                 nat ((inds ! k + 1) mod buffer_size b) < length (observations b) \<and>
                 observations b ! nat ((inds ! k + 1) mod buffer_size b) \<noteq> [] \<and>
                 next_obs ! k = observations b ! nat ((inds ! k + 1) mod buffer_size b) ! 0"
    if C: "0 < buffer_size b"
  proof (intro allI impI)
    fix k assume k: "k < length inds"
    let ?j = "(inds ! k + 1) mod buffer_size b"
    from C have j0: "0 \<le> ?j" by simp
    from a k C obtain row where
      row: "np_getitem (observations b) ?j = Inr row"
      and v: "np_getitem row 0 = Inr (next_obs ! k)"
      by (auto simp: np_mod_def)
    from np_getitem_nonneg [OF j0 row] have r1: "nat ?j < length (observations b)"
      and r2: "row = observations b ! nat ?j" by simp_all
    from np_getitem_nonneg [OF _ v] have r3: "nat 0 < length row"
      and r4: "next_obs ! k = row ! nat 0" by simp_all
    from r1 r2 r3 r4
    show "nat ?j < length (observations b) \<and> observations b ! nat ?j \<noteq> [] \<and>
          next_obs ! k = observations b ! nat ?j ! 0"
      by auto
  qed
  from inds len a c el show ?thesis by blast
qed

theorem sample_next_observations_alias_witness:
  "sample (\<lambda>k. k) demo_full 4 (Str ''numpy'') = Inr (demo_batch, demo_full)
   \<and> sample_batch_inds (\<lambda>k. k) demo_full 4 = Inr [1, 2, 1, 2]
   \<and> 0 < buffer_size demo_full
   \<and> elems (traj_next_observations demo_batch) = [3, 4, 3, 4]
   \<and> map (\<lambda>i. observations demo_full ! nat ((i + 1) mod buffer_size demo_full) ! 0)
        [1, 2, 1, 2] = [3, 4, 3, 4]"
proof -
  have h1: "sample (\<lambda>k. k) demo_full 4 (Str ''numpy'') = Inr (demo_batch, demo_full)"
    by code_simp
  have h2: "sample_batch_inds (\<lambda>k. k) demo_full 4 = Inr [1, 2, 1, 2]"
    by code_simp
  have h3: "elems (traj_next_observations demo_batch) = [3, 4, 3, 4]"
    by (simp add: demo_batch_def)
  have h4: "map (\<lambda>i. observations demo_full ! nat ((i + 1) mod buffer_size demo_full) ! 0)
        [1, 2, 1, 2] = [3, 4, 3, 4]"
    by (simp add: demo_full_def)
  have h5: "0 < buffer_size demo_full" by (simp add: demo_full_def)
  from sample_next_observations_alias [OF h1] h1 h2 h3 h4 h5 show ?thesis by blast
qed

text \<open>
  Claim C10. A call of \<^verbatim>\<open>sample\<close> that succeeds, for any entropy, batch size and
  \<open>dtype\<close>, leaves the buffer as it was: \<open>pos\<close>, \<open>full\<close> and the four arrays.
\<close>

theorem sample_leaves_buffer_unchanged:
  assumes "sample rng b batch_size dtype = Inr (batch, b')"
  shows "b' = b \<and> pos b' = pos b \<and> full b' = full b \<and>
         observations b' = observations b \<and> actions b' = actions b \<and>
         rewards b' = rewards b \<and> dones b' = dones b"
  using sample_InrD [OF assms] by auto

theorem sample_leaves_buffer_unchanged_witness:
  "sample (\<lambda>k. 2 * k) demo_partial 3 (Enum TORCH) =
     Inr (\<lparr>traj_observations = TorchTensor [1, 1, 1], traj_actions = TorchTensor [1, 1, 1],
           traj_rewards = TorchTensor [10, 10, 10],
           traj_next_observations = TorchTensor [2, 2, 2],
           traj_dones = TorchTensor [False, False, False]\<rparr>, demo_partial)"
proof -
  have h: "sample (\<lambda>k. 2 * k) demo_partial 3 (Enum TORCH) =
     Inr (\<lparr>traj_observations = TorchTensor [1, 1, 1], traj_actions = TorchTensor [1, 1, 1],
           traj_rewards = TorchTensor [10, 10, 10],
           traj_next_observations = TorchTensor [2, 2, 2],
           traj_dones = TorchTensor [False, False, False]\<rparr>, demo_partial)"
    by code_simp
  from sample_leaves_buffer_unchanged [OF h] h show ?thesis by simp
qed

section \<open>Sampling from an empty buffer\<close>

lemma resolve_dtype_cases:
  "resolve_dtype dtype = Inl ValueError \<or> (\<exists>dt. resolve_dtype dtype = Inr dt)"
  by (cases dtype) (simp_all add: resolve_dtype_def TrajectoryType_of_def)

text \<open>
  Claim C7, as the spec states it, has \<^verbatim>\<open>sample\<close> on a buffer without data raise nothing
  and return an invalid result. On the fresh buffer with batch size 1 the call raises
  ValueError: the draw from the empty range \<open>[0, 0)\<close> fails.
\<close>

theorem sample_empty_buffer_counterexample:
  "\<not> full demo_fresh \<and> pos demo_fresh = 0
   \<and> sample (\<lambda>k. k) demo_fresh 1 (Str ''numpy'') = Inl ValueError"
proof -
  have "sample (\<lambda>k. k) demo_fresh 1 (Str ''numpy'') = Inl ValueError" by code_simp
  then show ?thesis by (simp add: demo_fresh_def fresh_buffer_def)
qed

text \<open>
  Claim C7, amended: on a buffer with \<open>full\<close> false and \<open>pos = 0\<close>, \<^verbatim>\<open>sample\<close> with a
  batch size of at least 1 returns no batch; for every entropy and \<open>dtype\<close> the call
  ends in ValueError, raised by the index draw (or before it by an unknown \<open>dtype\<close>
  string), which \<^verbatim>\<open>sample\<close> passes on to its caller.
\<close>

theorem sample_empty_buffer_raises:
  assumes "\<not> full b" and "pos b = 0" and "1 \<le> batch_size"
  shows "sample rng b batch_size dtype = Inl ValueError"
proof -
  from assms have "sample_batch_inds rng b batch_size = Inl ValueError"
    by (simp add: sample_batch_inds_def randint_def)
  with resolve_dtype_cases [of dtype] show ?thesis
    by (auto simp: sample_def)
qed

theorem sample_empty_buffer_raises_witness:
  "\<not> full demo_fresh \<and> pos demo_fresh = 0 \<and> (1::int) \<le> 2
   \<and> sample (\<lambda>k. k) demo_fresh 2 (Enum TORCH) = Inl ValueError"
proof -
  have h1: "\<not> full demo_fresh" and h2: "pos demo_fresh = 0"
    by (simp_all add: demo_fresh_def fresh_buffer_def)
  have h3: "(1::int) \<le> 2" by simp
  from sample_empty_buffer_raises [OF h1 h2 h3] h1 h2 show ?thesis by simp
qed

section \<open>The TD(0) target, elementwise\<close>

lemma TD_zero_length:
  "length next_values = length rs \<Longrightarrow> length ds = length rs \<Longrightarrow>
   length (TD_zero rs next_values ds gamma) = length rs"
  by (simp add: TD_zero_def Let_def)

lemma TD_zero_nth:
  assumes "length next_values = length rs" and "length ds = length rs" and "i < length rs"
  shows "TD_zero rs next_values ds gamma ! i =
           rs ! i + (case gamma of None \<Rightarrow> 1 | Some g \<Rightarrow> g) * (1 - ds ! i) * next_values ! i"
  using assms by (simp add: TD_zero_def Let_def)

text \<open>
  Claim C4. For batches of rewards, next-state values and done flags of one length, the
  TD(0) target has that length and its \<open>i\<close>-th entry is
  \<open>reward + gamma * (1 - done) * next_value\<close>, with 1 for \<open>gamma\<close> when the argument is
  left out. With \<open>gamma = 1\<close> (given or by default), rewards 1, next values 1 and dones
  0 every entry is 2; and an entry whose done flag is 1 is the reward alone.
\<close>

theorem TD_zero_target:
  assumes "length next_values = length rs" and "length ds = length rs"
  shows "length (TD_zero rs next_values ds gamma) = length rs
     \<and> (\<forall>i<length rs. TD_zero rs next_values ds (Some g) ! i =
            rs ! i + g * (1 - ds ! i) * next_values ! i)
     \<and> (\<forall>i<length rs. TD_zero rs next_values ds None ! i =
            rs ! i + 1 * (1 - ds ! i) * next_values ! i)
     \<and> ((\<forall>i<length rs. rs ! i = 1 \<and> next_values ! i = 1 \<and> ds ! i = 0) \<longrightarrow>
          (\<forall>i<length rs. TD_zero rs next_values ds (Some 1) ! i = 2 \<and>
                           TD_zero rs next_values ds None ! i = 2))
     \<and> (\<forall>i<length rs. ds ! i = 1 \<longrightarrow> TD_zero rs next_values ds gamma ! i = rs ! i)"
  using assms by (simp add: TD_zero_length TD_zero_nth)

theorem TD_zero_target_witness:
  "length [1, 1, 1 :: real] = length [1, 1, 1 :: real]
   \<and> length [0, 0, 0 :: real] = length [1, 1, 1 :: real]
   \<and> TD_zero [1, 1, 1] [1, 1, 1] [0, 0, 0] (Some 1) = [2, 2, 2]
   \<and> TD_zero [1, 1, 1] [1, 1, 1] [0, 0, 0] None = [2, 2, 2]
   \<and> TD_zero [5, 7] [3, 4] [1, 0] None = [5, 11]"
proof -
  have h1: "length [1, 1, 1 :: real] = length [1, 1, 1 :: real]" by simp
  have h2: "length [0, 0, 0 :: real] = length [1, 1, 1 :: real]" by simp
  from TD_zero_target [OF h1 h2, of "Some 1" 1]
  show ?thesis by (simp add: TD_zero_def)
qed

section \<open>The optimisation step\<close>

text \<open>
  The calls of \<^verbatim>\<open>run_optimizer\<close>, in order: zero the gradients, backpropagate, clip when
  and only when \<^verbatim>\<open>max_grad\<close> is strictly positive, step. The clip works on what the iterator
  at \<open>model_parameters\<close> still yields; on an iterator that still holds the parameters
  \<open>ps\<close> it clips \<open>ps\<close>.
\<close>

lemma clipped_parameters_append:
  "clipped_parameters (cs @ ds) = clipped_parameters cs @ clipped_parameters ds"
  by (induction cs rule: clipped_parameters.induct) simp_all

lemma run_optimizer_calls:
  assumes "a < length (iterators s)"
  shows "calls (run_optimizer max_grad optimizer a s) =
           calls s @ [ZeroGrad (param_groups optimizer), Backward]
             @ (if 0 < max_grad then [ClipGradNorm max_grad (iterators s ! a)] else [])
             @ [OptimizerStep (param_groups optimizer)]"
  using assms by (simp add: run_optimizer_def clip_grad_norm_def drain_def Let_def)

lemma run_optimizer_clips_fresh_iterator:
  "clipped_parameters
     (calls (run_optimizer max_grad optimizer 0 \<lparr>calls = [], iterators = [ps]\<rparr>)) =
   (if 0 < max_grad then ps else [])"
  by (simp add: run_optimizer_calls)

text \<open>
  The calls of \<^verbatim>\<open>DeepRegression.__call__\<close>. The optimizer is built from the iterator
  first and receives every parameter; the clip call, made when \<^verbatim>\<open>max_grad\<close> is strictly
  positive, gets the same iterator afterwards and receives none. The log holds the value
  of the loss.
\<close>

lemma DeepRegression_call_calls:
  "calls (snd (DeepRegression_call max_grad ps model loss_class obs acts tgts lr s)) =
     calls s @ [ModelParameters, NewOptimizer lr ps, Forward, LossClass, ZeroGrad ps, Backward]
       @ (if 0 < max_grad then [ClipGradNorm max_grad []] else [])
       @ [OptimizerStep ps]"
  by (simp add: DeepRegression_call_def parameters_of_def new_optimizer_def drain_def
      run_optimizer_def clip_grad_norm_def Let_def)

lemma DeepRegression_call_clips_nothing:
  "clipped_parameters
     (calls (snd (DeepRegression_call max_grad ps model loss_class obs acts tgts lr s)))
   = clipped_parameters (calls s)"
  by (simp add: DeepRegression_call_calls clipped_parameters_append)

lemma DeepRegression_call_log:
  "loss (fst (DeepRegression_call max_grad ps model loss_class obs acts tgts lr s)) =
     item (loss_class (model obs acts) tgts)"
  by (simp add: DeepRegression_call_def detach_def Let_def split_def)

text \<open>
  Claim C8 has the optimisation step clip the gradient norm when \<^verbatim>\<open>max_grad\<close> is strictly
  positive. \<^verbatim>\<open>DeepRegression.__call__\<close> with \<^verbatim>\<open>max_grad\<close> 1/2 on a model with the two
  parameters 0 and 1 builds the optimizer on both, zeroes and steps both, and makes the
  clip call; but the clip call receives no parameter, so no gradient is clipped. The same
  \<^verbatim>\<open>run_optimizer\<close> on an iterator that still holds the two parameters clips both.
\<close>

theorem DeepRegression_call_clips_no_parameter:
  "calls (snd (DeepRegression_call (1 / 2) [0, 1 :: nat] (\<lambda>x a. x + a)
            (\<lambda>p t. \<lparr>item = (p - t)\<^sup>2, requires_grad = True\<rparr>) (1 :: real) 2 5 (1 / 1000)
            torch_init)) =
     [ModelParameters, NewOptimizer (1 / 1000) [0, 1], Forward, LossClass, ZeroGrad [0, 1],
      Backward, ClipGradNorm (1 / 2) [], OptimizerStep [0, 1]]
   \<and> clipped_parameters
        (calls (snd (DeepRegression_call (1 / 2) [0, 1 :: nat] (\<lambda>x a. x + a)
            (\<lambda>p t. \<lparr>item = (p - t)\<^sup>2, requires_grad = True\<rparr>) (1 :: real) 2 5 (1 / 1000)
            torch_init))) = []
   \<and> clipped_parameters
        (calls (run_optimizer (1 / 2) \<lparr>param_groups = [0, 1 :: nat], opt_lr = 1 / 1000\<rparr> 0
            \<lparr>calls = [], iterators = [[0, 1]]\<rparr>)) = [0, 1]"
  by (simp add: DeepRegression_call_calls run_optimizer_calls torch_init_def)

section \<open>Target synchronisation\<close>

text \<open>
  The epochs of \<^verbatim>\<open>DQN._fit\<close> run the updater only; they leave the target critic as it
  was and collect one loss per epoch.
\<close>

lemma fit_epochs_target:
  assumes "fit_epochs rng buffer batch_size target_q updater i n m = Inr (m1, losses)"
  shows "target_critic m1 = target_critic m \<and> length losses = n"
  using assms
proof (induction n arbitrary: i m m1 losses)
  case 0
  then show ?case by simp
next
  case (Suc n)
  from Suc.prems obtain trajectories b' online updater_log m2 losses2 where
    "updater (critic m) trajectories (target_q (target_critic m) trajectories)
       = (online, updater_log)"
    and rest: "fit_epochs rng buffer batch_size target_q updater (Suc i) n (m\<lparr>critic := online\<rparr>)
       = Inr (m2, losses2)"
    and res: "m1 = m2" "losses = loss updater_log # losses2"
    by (auto simp: Let_def split: sum.splits prod.splits)
  from Suc.IH [OF rest] res show ?case by simp
qed

text \<open>
  Claim C9. After \<open>assign_targets\<close> every parameter of the target critic equals the
  corresponding parameter of the online critic, which the synchronisation does not
  change. The gradient steps of the fitting epochs leave the target critic unchanged,
  and after a whole \<^verbatim>\<open>DQN._fit\<close>, which ends with the synchronisation, target and online
  critic agree.
\<close>

theorem assign_targets_hard_sync:
  "target_critic (assign_targets m) = critic m \<and> critic (assign_targets m) = critic m
   \<and> (\<forall>i<length (critic m). target_critic (assign_targets m) ! i = critic (assign_targets m) ! i)
   \<and> (fit_epochs rng buffer batch_size target_q updater i n m = Inr (m1, losses) \<longrightarrow>
        target_critic m1 = target_critic m)
   \<and> (DQN_fit rng buffer target_q updater m batch_size critic_epochs = Inr (m', fit_log) \<longrightarrow>
        target_critic m' = critic m')"
proof (intro conjI impI)
  show "target_critic (assign_targets m) = critic m" by (simp add: assign_targets_def)
  show "critic (assign_targets m) = critic m" by (simp add: assign_targets_def)
  show "\<forall>i<length (critic m). target_critic (assign_targets m) ! i = critic (assign_targets m) ! i"
    by (simp add: assign_targets_def)
next
  assume "fit_epochs rng buffer batch_size target_q updater i n m = Inr (m1, losses)"
  then show "target_critic m1 = target_critic m" by (simp add: fit_epochs_target)
next
  assume "DQN_fit rng buffer target_q updater m batch_size critic_epochs = Inr (m', fit_log)"
  then obtain m2 where "m' = assign_targets m2"
    by (auto simp: DQN_fit_def split: if_splits sum.splits prod.splits)
  then show "target_critic m' = critic m'" by (simp add: assign_targets_def)
qed

theorem assign_targets_hard_sync_witness:
  "fit_epochs (\<lambda>i k. k) demo_full 4 (\<lambda>ps t. ()) demo_updater 0 2 demo_critics =
     Inr (\<lparr>critic = [3, 4], target_critic = [0, 0]\<rparr>, [1, 1])
   \<and> DQN_fit (\<lambda>i k. k) demo_full (\<lambda>ps t. ()) demo_updater demo_critics 4 2 =
     Inr (\<lparr>critic = [3, 4], target_critic = [3, 4]\<rparr>, \<lparr>critic_loss = 1\<rparr>)
   \<and> target_critic demo_critics = [0, 0]"
proof -
  have s: "sample (\<lambda>k. k) demo_full 4 (Str ''numpy'') = Inr (demo_batch, demo_full)"
    by code_simp
  have h1: "fit_epochs (\<lambda>i k. k) demo_full 4 (\<lambda>ps t. ()) demo_updater 0 2 demo_critics =
     Inr (\<lparr>critic = [3, 4], target_critic = [0, 0]\<rparr>, [1, 1])"
    by (simp add: numeral_2_eq_2 s demo_updater_def demo_critics_def)
  have h2: "DQN_fit (\<lambda>i k. k) demo_full (\<lambda>ps t. ()) demo_updater demo_critics 4 2 =
     Inr (\<lparr>critic = [3, 4], target_critic = [3, 4]\<rparr>, \<lparr>critic_loss = 1\<rparr>)"
    using h1 by (simp add: DQN_fit_def assign_targets_def)
  from assign_targets_hard_sync [of demo_critics "\<lambda>i k. k" demo_full 4 "\<lambda>ps t. ()"
      demo_updater 0 2 "\<lparr>critic = [3, 4], target_critic = [0, 0]\<rparr>" "[1, 1]" 2
      "\<lparr>critic = [3, 4], target_critic = [3, 4]\<rparr>" "\<lparr>critic_loss = 1\<rparr>"] h1 h2
  show ?thesis by (simp add: demo_critics_def)
qed

end
